theory Spec2Isabelle
  imports Main "HOL-Library.Word"
begin

section \<open>JavaScript values used by server.js\<close>

text \<open>
  A JavaScript string is a sequence of UTF-16 code units. String literals of the source
  are written with \<open>js\<close>, which maps each (ASCII) character to its code unit.
\<close>

type_synonym code_unit = "16 word"
type_synonym jsstring = "code_unit list"
type_synonym bytes = "8 word list"

definition js :: "string \<Rightarrow> jsstring" where
  "js s = map of_char s"

text \<open>
  White space and line terminators of ECMAScript: the code units that
  \<^verbatim>\<open>String.prototype.trim\<close> strips and that \<^verbatim>\<open>parseInt\<close> skips in front of a number.
\<close>

definition isWhiteSpace :: "code_unit \<Rightarrow> bool" where
  "isWhiteSpace c =
     (c = 0x0009 \<or> c = 0x000A \<or> c = 0x000B \<or> c = 0x000C \<or> c = 0x000D \<or> c = 0x0020 \<or>
      c = 0x00A0 \<or> c = 0x1680 \<or> (0x2000 \<le> c \<and> c \<le> 0x200A) \<or> c = 0x2028 \<or>
      c = 0x2029 \<or> c = 0x202F \<or> c = 0x205F \<or> c = 0x3000 \<or> c = 0xFEFF)"

definition trimStart :: "jsstring \<Rightarrow> jsstring" where
  "trimStart s = dropWhile isWhiteSpace s"

definition trimEnd :: "jsstring \<Rightarrow> jsstring" where
  "trimEnd s = rev (dropWhile isWhiteSpace (rev s))"

definition trim :: "jsstring \<Rightarrow> jsstring" where
  "trim s = trimEnd (trimStart s)"

text \<open>\<^verbatim>\<open>Array.prototype.join\<close> on an array of strings.\<close>

fun join :: "jsstring \<Rightarrow> jsstring list \<Rightarrow> jsstring" where
  "join sep [] = []"
| "join sep [x] = x"
| "join sep (x # y # ys) = x @ sep @ join sep (y # ys)"

text \<open>
  A JavaScript number, as far as the handlers meet one: \<open>NaN\<close>, a double whose value is
  an integer (\<open>Num\<close>), or an infinity. The handlers only compare numbers and test them
  for truth, so the sign of zero is not kept. Every comparison with \<open>NaN\<close> is false, and
  \<open>NaN\<close> and \<open>0\<close> are the falsy numbers.
\<close>

datatype jsnumber = NaN | Num int | Infinity | MinusInfinity

definition isNaN :: "jsnumber \<Rightarrow> bool" where
  "isNaN x = (x = NaN)"

fun js_less :: "jsnumber \<Rightarrow> jsnumber \<Rightarrow> bool" where
  "js_less (Num a) (Num b) = (a < b)"
| "js_less (Num a) Infinity = True"
| "js_less MinusInfinity (Num b) = True"
| "js_less MinusInfinity Infinity = True"
| "js_less _ _ = False"

fun truthy :: "jsnumber \<Rightarrow> bool" where
  "truthy NaN = False"
| "truthy (Num v) = (v \<noteq> 0)"
| "truthy _ = True"

fun negate :: "jsnumber \<Rightarrow> jsnumber" where
  "negate NaN = NaN"
| "negate (Num v) = Num (- v)"
| "negate Infinity = MinusInfinity"
| "negate MinusInfinity = Infinity"

text \<open>
  The double nearest to a natural number, ties to the even significand: a number below
  \<open>2 ^ 53\<close> is a double; a longer one keeps its 53 leading bits, rounded on the bits cut
  off; what reaches \<open>2 ^ 1024\<close> after rounding is \<open>Infinity\<close>.
\<close>

fun bitLength :: "nat \<Rightarrow> nat" where
  "bitLength n = (if n = 0 then 0 else Suc (bitLength (n div 2)))"

declare bitLength.simps [simp del]

definition toDouble :: "nat \<Rightarrow> jsnumber" where
  "toDouble n =
     (if n < 2 ^ 53 then Num (int n)
      else
        let e = bitLength n - 53;
            q = n div 2 ^ e;
            r = n mod 2 ^ e;
            half = 2 ^ (e - 1);
            q = (if half < r \<or> (r = half \<and> odd q) then q + 1 else q);
            v = q * 2 ^ e
        in if 2 ^ 1024 \<le> v then Infinity else Num (int v))"

text \<open>The operator \<^verbatim>\<open>x || y\<close> on numbers.\<close>

definition js_or :: "jsnumber \<Rightarrow> jsnumber \<Rightarrow> jsnumber" where
  "js_or x y = (if truthy x then x else y)"

subsection \<open>parseInt\<close>

text \<open>
  \<^verbatim>\<open>parseInt(string)\<close> with no radix, after ECMAScript: skip leading white space, take
  an optional sign, take the prefix \<^verbatim>\<open>0x\<close> or \<^verbatim>\<open>0X\<close> as radix 16 and radix 10 otherwise,
  read the longest run of digits of that radix, and return \<open>NaN\<close> when the run is empty.
  The result is a Number: the integer the digits denote, rounded to the nearest double
  (\<^verbatim>\<open>parseInt("9007199254740993")\<close> is 9007199254740992, and a run of 400 digits is
  \<open>Infinity\<close>), as Node's engine computes it.
\<close>

definition digitValue :: "code_unit \<Rightarrow> nat option" where
  "digitValue c =
     (if 0x30 \<le> c \<and> c \<le> 0x39 then Some (unat c - 0x30)
      else if 0x61 \<le> c \<and> c \<le> 0x7A then Some (unat c - 0x61 + 10)
      else if 0x41 \<le> c \<and> c \<le> 0x5A then Some (unat c - 0x41 + 10)
      else None)"

definition radixDigit :: "nat \<Rightarrow> code_unit \<Rightarrow> nat option" where
  "radixDigit R c = (case digitValue c of None \<Rightarrow> None | Some d \<Rightarrow> if d < R then Some d else None)"

fun leadingDigits :: "nat \<Rightarrow> jsstring \<Rightarrow> nat list" where
  "leadingDigits R [] = []"
| "leadingDigits R (c # cs) =
     (case radixDigit R c of None \<Rightarrow> [] | Some d \<Rightarrow> d # leadingDigits R cs)"

definition mathInt :: "nat \<Rightarrow> nat list \<Rightarrow> nat" where
  "mathInt R Z = foldl (\<lambda>a d. a * R + d) 0 Z"

fun stripSign :: "jsstring \<Rightarrow> int \<times> jsstring" where
  "stripSign [] = (1, [])"
| "stripSign (c # cs) =
     (if c = 0x2D then (- 1, cs) else if c = 0x2B then (1, cs) else (1, c # cs))"

fun stripPrefix :: "jsstring \<Rightarrow> nat \<times> jsstring" where
  "stripPrefix (a # b # cs) =
     (if a = 0x30 \<and> (b = 0x78 \<or> b = 0x58) then (16, cs) else (10, a # b # cs))"
| "stripPrefix cs = (10, cs)"

definition parseInt :: "jsstring \<Rightarrow> jsnumber" where
  "parseInt inputString =
     (let (sign, S) = stripSign (trimStart inputString);
          (R, S) = stripPrefix S;
          Z = leadingDigits R S
      in if Z = [] then NaN
         else if sign = - 1 then negate (toDouble (mathInt R Z))
         else toDouble (mathInt R Z))"

text \<open>
  A value of \<^verbatim>\<open>req.query\<close>: absent (\<^verbatim>\<open>undefined\<close>) or a string. \<^verbatim>\<open>parseInt\<close> converts
  its argument to a string first, and \<^verbatim>\<open>undefined\<close> becomes the string "undefined".
\<close>

type_synonym query_value = "jsstring option"

definition ToString :: "query_value \<Rightarrow> jsstring" where
  "ToString v = (case v of None \<Rightarrow> js ''undefined'' | Some s \<Rightarrow> s)"

text \<open>\<^verbatim>\<open>!v\<close> on a query value: \<^verbatim>\<open>undefined\<close> and the empty string are falsy.\<close>

definition falsy :: "query_value \<Rightarrow> bool" where
  "falsy v = (case v of None \<Rightarrow> True | Some s \<Rightarrow> s = [])"

section \<open>The environment: the remote server and the PDF parser\<close>

text \<open>
  A parsed document is the list of its pages, page \<open>i\<close> (counted from 1) at position
  \<open>i - 1\<close>; a page is the list of its text items in their structural order, and the
  handlers read the field \<^verbatim>\<open>str\<close> of an item. \<^verbatim>\<open>pageData\<close> is what the parser passes
  to the render callback.
\<close>

record text_item =
  str :: jsstring

type_synonym pdf_document = "text_item list list"

record page_data =
  pageNumber :: nat
  items :: "text_item list"

text \<open>
  What the handlers take from outside the repository:
  \<^item> \<open>axios_get\<close>: the result of \<^verbatim>\<open>axios.get(pdfUrl, ...)\<close>, the body of the response
    or the message of the error it rejects with;
  \<^item> \<open>getDocument\<close>: the parser reading the bytes, a document or the message of the
    error it throws;
  \<^item> \<open>page_separator\<close> and \<open>render_page\<close>: described at \<open>pdfParse\<close> below.
\<close>

record env =
  axios_get :: "jsstring \<Rightarrow> jsstring + bytes"
  getDocument :: "bytes \<Rightarrow> jsstring + pdf_document"
  page_separator :: jsstring
  render_page :: "page_data \<Rightarrow> jsstring"

record options =
  max_opt :: jsnumber
  pagerender :: "page_data \<Rightarrow> jsstring"

definition getPage :: "pdf_document \<Rightarrow> nat \<Rightarrow> page_data" where
  "getPage doc i = \<lparr>pageNumber = i, items = doc ! (i - 1)\<rparr>"

text \<open>
  Modelled from the spec: \<^verbatim>\<open>pdfParse\<close> belongs to the package pdf-parse, which server.js
  requires (line 29) and which is not part of the repository. Section 4.2: the document is
  parsed page by page, up to \<open>max\<close> pages, stopping at the last page of a shorter
  document; the text of a page is what the render callback returns for it; the texts are
  put together in page order. Without options (section 4.3) every page is processed, with
  the parser's own renderer. Two things that neither the source nor the callback fixes are
  parameters of the environment: the text the parser puts in front of each page's text
  (\<open>page_separator\<close>; the package pdf-parse puts two line feeds there) and the renderer it
  applies when the caller gives none (\<open>render_page\<close>). A limit that is not positive
  means no limit, as does an infinite one, and \<open>NaN\<close> no page.
\<close>

fun pageCounter :: "jsnumber \<Rightarrow> nat \<Rightarrow> nat" where
  "pageCounter NaN numPages = 0"
| "pageCounter (Num k) numPages =
     (if k \<le> 0 then numPages else if int numPages < k then numPages else nat k)"
| "pageCounter Infinity numPages = numPages"
| "pageCounter MinusInfinity numPages = numPages"

function renderPages ::
  "jsstring \<Rightarrow> (page_data \<Rightarrow> jsstring) \<Rightarrow> pdf_document \<Rightarrow> nat \<Rightarrow> nat \<Rightarrow> jsstring \<Rightarrow> jsstring" where
  "renderPages sep render doc counter i text =
     (if i \<le> counter
      then renderPages sep render doc counter (i + 1) (text @ sep @ render (getPage doc i))
      else text)"
  by pat_completeness auto
termination
  by (relation "measure (\<lambda>(sep, render, doc, counter, i, text). counter + 1 - i)") auto

declare renderPages.simps [simp del]

definition defaultOptions :: "env \<Rightarrow> options" where
  "defaultOptions e = \<lparr>max_opt = Num 0, pagerender = render_page e\<rparr>"

definition pdfParse :: "env \<Rightarrow> bytes \<Rightarrow> options option \<Rightarrow> jsstring + jsstring" where
  "pdfParse e dataBuffer opts =
     (let opt = (case opts of None \<Rightarrow> defaultOptions e | Some opt \<Rightarrow> opt)
      in case getDocument e dataBuffer of
           Inl message \<Rightarrow> Inl message
         | Inr doc \<Rightarrow>
             Inr (renderPages (page_separator e) (pagerender opt) doc
                    (pageCounter (max_opt opt) (length doc)) 1 []))"

section \<open>The handlers of server.js\<close>

record request =
  pdfUrl :: query_value
  q_min :: query_value
  q_max :: query_value

text \<open>
  The JSON bodies the handlers send:
  \<^verbatim>\<open>{ error }\<close>, \<^verbatim>\<open>{ error, message }\<close>, \<^verbatim>\<open>{ text }\<close> and \<^verbatim>\<open>{ status }\<close>.
\<close>

datatype json_body =
  ErrorBody jsstring
| FailureBody jsstring jsstring
| TextBody jsstring
| StatusBody jsstring

record response =
  status :: nat
  body :: json_body

text \<open>What a handler does besides answering, in the order it does it.\<close>

datatype effect =
  HttpGet jsstring
| Parse bytes
| ConsoleError jsstring

text \<open>The \<^verbatim>\<open>catch\<close> block of both extraction handlers (server.js, lines 90-96, 126-132).\<close>

definition catch_error :: "effect list \<Rightarrow> jsstring \<Rightarrow> response \<times> effect list" where
  "catch_error effects message =
     (\<lparr>status = 500, body = FailureBody (js ''Failed to process PDF'') message\<rparr>,
      effects @ [ConsoleError message])"

text \<open>\<^verbatim>\<open>data.text || ""\<close>: the empty string is the falsy string.\<close>

definition text_or_empty :: "jsstring \<Rightarrow> jsstring" where
  "text_or_empty t = (if t = [] then [] else t)"

text \<open>The render callback of the ranged handler (server.js, lines 71-78).\<close>

definition ranged_pagerender :: "jsnumber \<Rightarrow> page_data \<Rightarrow> jsstring" where
  "ranged_pagerender min_page pageData =
     (if js_less (Num (int (pageNumber pageData))) min_page then []
      else join (js '' '') (map str (items pageData)))"

text \<open>
  The page bounds of the ranged handler (server.js, lines 57-58):
  \<^verbatim>\<open>parseInt(req.query.max) || 100\<close> and \<^verbatim>\<open>parseInt(req.query.min) || 1\<close>.
\<close>

definition max_page :: "request \<Rightarrow> jsnumber" where
  "max_page req = js_or (parseInt (ToString (q_max req))) (Num 100)"

definition min_page :: "request \<Rightarrow> jsnumber" where
  "min_page req = js_or (parseInt (ToString (q_min req))) (Num 1)"

text \<open>
  A bound the handler takes as it is written: the parameter is absent, and the default
  stands in for it (line 57: "Default to 100 if not provided"), or it parses to a number
  other than 0.
\<close>

definition plain_bound :: "query_value \<Rightarrow> bool" where
  "plain_bound q = (q = None \<or> truthy (parseInt (ToString q)))"

text \<open>
  \<^verbatim>\<open>app.get("/api/pdf-text", ...)\<close> (server.js, lines 38-97). The handler answers and
  leaves a list of effects; \<^verbatim>\<open>pdfData\<close> is the body of the fetched response as bytes.
\<close>

definition api_pdf_text :: "env \<Rightarrow> request \<Rightarrow> response \<times> effect list" where
  "api_pdf_text e req =
     (if falsy (pdfUrl req)
      then (\<lparr>status = 400, body = ErrorBody (js ''Missing pdfUrl parameter'')\<rparr>, [])
      else
        let url = ToString (pdfUrl req) in
        case axios_get e url of
          Inl message \<Rightarrow> catch_error [HttpGet url] message
        | Inr pdfData \<Rightarrow>
            if isNaN (max_page req) \<or> js_less (max_page req) (Num 1)
            then catch_error [HttpGet url] (js ''Invalid max page value'')
            else if isNaN (min_page req) \<or> js_less (min_page req) (Num 1)
                    \<or> js_less (max_page req) (min_page req)
            then catch_error [HttpGet url] (js ''Invalid min page value'')
            else
              (case pdfParse e pdfData
                      (Some \<lparr>max_opt = max_page req,
                             pagerender = ranged_pagerender (min_page req)\<rparr>) of
                 Inl message \<Rightarrow> catch_error [HttpGet url, Parse pdfData] message
               | Inr text \<Rightarrow>
                   (\<lparr>status = 200, body = TextBody (trim (text_or_empty text))\<rparr>,
                    [HttpGet url, Parse pdfData])))"

text \<open>\<^verbatim>\<open>app.get("/api/pdf-text-all", ...)\<close> (server.js, lines 100-133).\<close>

definition api_pdf_text_all :: "env \<Rightarrow> request \<Rightarrow> response \<times> effect list" where
  "api_pdf_text_all e req =
     (if falsy (pdfUrl req)
      then (\<lparr>status = 400, body = ErrorBody (js ''Missing pdfUrl parameter'')\<rparr>, [])
      else
        let url = ToString (pdfUrl req) in
        case axios_get e url of
          Inl message \<Rightarrow> catch_error [HttpGet url] message
        | Inr pdfData \<Rightarrow>
            (case pdfParse e pdfData None of
               Inl message \<Rightarrow> catch_error [HttpGet url, Parse pdfData] message
             | Inr text \<Rightarrow>
                 (\<lparr>status = 200, body = TextBody (trim (text_or_empty text))\<rparr>,
                  [HttpGet url, Parse pdfData])))"

text \<open>\<^verbatim>\<open>app.get("/api/health", ...)\<close> (server.js, lines 137-139); the request is not read.\<close>

definition api_health :: "request \<Rightarrow> response \<times> effect list" where
  "api_health _ = (\<lparr>status = 200, body = StatusBody (js ''ok'')\<rparr>, [])"

text \<open>The routes of the application that answer with JSON.\<close>

datatype route = PdfText | PdfTextAll | Health

fun app :: "env \<Rightarrow> route \<Rightarrow> request \<Rightarrow> response \<times> effect list" where
  "app e PdfText req = api_pdf_text e req"
| "app e PdfTextAll req = api_pdf_text_all e req"
| "app e Health req = api_health req"

section \<open>The texts the specification describes\<close>

text \<open>The text of one page: its fragments in order, joined by a single space.\<close>

definition page_text :: "text_item list \<Rightarrow> jsstring" where
  "page_text p = join (js '' '') (map str p)"

text \<open>
  The text of section 4.2 of the specification, in its words: the empty string for a page
  whose number is below \<open>lo\<close>, the joined fragments for a page whose number is in
  \<open>[lo, hi]\<close>, all concatenated in page order and trimmed.
\<close>

definition spec_ranged_text :: "int \<Rightarrow> int \<Rightarrow> pdf_document \<Rightarrow> jsstring" where
  "spec_ranged_text lo hi doc =
     trim (concat (map (\<lambda>i. if int i < lo then []
                            else if int i \<le> hi then page_text (doc ! (i - 1)) else [])
                     [1..<Suc (length doc)]))"

text \<open>
  The same with the parser's separator in front of the text of every page that is
  processed, the skipped ones included.
\<close>

definition ranged_pages :: "jsstring \<Rightarrow> int \<Rightarrow> int \<Rightarrow> pdf_document \<Rightarrow> jsstring" where
  "ranged_pages sep lo hi doc =
     concat (map (\<lambda>i. if int i \<le> hi
                       then sep @ (if int i < lo then [] else page_text (doc ! (i - 1)))
                       else [])
               [1..<Suc (length doc)])"

definition ranged_text :: "jsstring \<Rightarrow> int \<Rightarrow> int \<Rightarrow> pdf_document \<Rightarrow> jsstring" where
  "ranged_text sep lo hi doc = trim (ranged_pages sep lo hi doc)"

text \<open>The extraction of page \<open>k\<close> alone; a page the document does not have has no text.\<close>

definition single_page_text :: "nat \<Rightarrow> pdf_document \<Rightarrow> jsstring" where
  "single_page_text k doc =
     (if 1 \<le> k \<and> k \<le> length doc then trim (page_text (doc ! (k - 1))) else [])"

definition all_whitespace :: "jsstring \<Rightarrow> bool" where
  "all_whitespace s = list_all isWhiteSpace s"

section \<open>Concrete requests and environments\<close>

text \<open>
  A two-page document, "a" and "b" on the first page and "c" on the second; a server that
  delivers it and a parser that puts two line feeds in front of every page and, as its own
  renderer, appends the fragments of a page with nothing between them; a server that
  cannot be reached.
\<close>

definition two_pages :: pdf_document where
  "two_pages = [[\<lparr>str = js ''a''\<rparr>, \<lparr>str = js ''b''\<rparr>], [\<lparr>str = js ''c''\<rparr>]]"

definition pdf_bytes :: bytes where
  "pdf_bytes = [0x25, 0x50, 0x44, 0x46]"

definition online :: env where
  "online = \<lparr>axios_get = (\<lambda>url. Inr pdf_bytes),
             getDocument = (\<lambda>data. Inr two_pages),
             page_separator = [0x0A, 0x0A],
             render_page = (\<lambda>pageData. concat (map str (items pageData)))\<rparr>"

definition offline :: env where
  "offline = online\<lparr>axios_get := (\<lambda>url. Inl (js ''Network Error''))\<rparr>"

text \<open>The same parser with no separator, and with a renderer that joins with spaces.\<close>

definition unseparated :: env where
  "unseparated = online\<lparr>page_separator := []\<rparr>"

definition spaced :: env where
  "spaced = online\<lparr>render_page := (\<lambda>pageData. page_text (items pageData))\<rparr>"

definition doc_url :: jsstring where
  "doc_url = js ''https://x/doc.pdf''"

definition ranged_request :: "string \<Rightarrow> string \<Rightarrow> request" where
  "ranged_request lo hi = \<lparr>pdfUrl = Some doc_url, q_min = Some (js lo), q_max = Some (js hi)\<rparr>"

definition min_only_request :: "string \<Rightarrow> request" where
  "min_only_request lo = \<lparr>pdfUrl = Some doc_url, q_min = Some (js lo), q_max = None\<rparr>"

section \<open>Lemmas about the parser loop, trimming and the page bounds\<close>

lemma renderPages_eq:
  "renderPages sep render doc counter i acc =
     acc @ concat (map (\<lambda>k. sep @ render (getPage doc k)) [i..<Suc counter])"
proof (induction sep render doc counter i acc rule: renderPages.induct)
  case (1 sep render doc counter i acc)
  show ?case
  proof (cases "i \<le> counter")
    case True
    then have "[i..<Suc counter] = i # [Suc i..<Suc counter]"
      by (simp add: upt_conv_Cons)
    with True "1" show ?thesis
      by (subst renderPages.simps) simp
  next
    case False
    then show ?thesis
      by (subst renderPages.simps) simp
  qed
qed

lemma trim_whitespace_prefix:
  "all_whitespace w \<Longrightarrow> trim (w @ s) = trim s"
  by (simp add: all_whitespace_def list_all_iff trim_def trimStart_def dropWhile_append)

lemma trim_all_whitespace:
  assumes "all_whitespace w"
  shows "trim w = []"
proof -
  have start: "dropWhile isWhiteSpace w = []"
    using assms by (simp add: all_whitespace_def list_all_iff)
  show ?thesis
    unfolding trim_def trimStart_def trimEnd_def start by simp
qed

lemma all_whitespace_append:
  "all_whitespace (u @ v) = (all_whitespace u \<and> all_whitespace v)"
  by (simp add: all_whitespace_def)

lemma all_whitespace_repeat:
  "all_whitespace sep \<Longrightarrow> all_whitespace (concat (map (\<lambda>i. sep) ks))"
  by (induction ks) (simp_all add: all_whitespace_def)

lemma concat_map_upto_cut:
  assumes "c \<le> n"
  shows "concat (map (\<lambda>i. if i \<le> c then f i else []) [1..<Suc n]) = concat (map f [1..<Suc c])"
proof -
  have split: "[1..<Suc n] = [1..<Suc c] @ [Suc c..<Suc n]"
    using assms upt_add_eq_append [of 1 "Suc c" "n - c"] by simp
  have low: "map (\<lambda>i. if i \<le> c then f i else []) [1..<Suc c] = map f [1..<Suc c]"
    by (rule map_cong) auto
  have high: "concat (map (\<lambda>i. if i \<le> c then f i else []) [Suc c..<Suc n]) = []"
    by (simp del: upt_Suc)
  show ?thesis
    unfolding split map_append concat_append low high by simp
qed

lemma text_or_empty_id: "text_or_empty t = t"
  by (simp add: text_or_empty_def)

lemma max_page_cases:
  "max_page req =
     (case parseInt (ToString (q_max req)) of
        NaN \<Rightarrow> Num 100
      | Num v \<Rightarrow> if v = 0 then Num 100 else Num v
      | Infinity \<Rightarrow> Infinity
      | MinusInfinity \<Rightarrow> MinusInfinity)"
  by (simp add: max_page_def js_or_def split: jsnumber.splits)

lemma min_page_cases:
  "min_page req =
     (case parseInt (ToString (q_min req)) of
        NaN \<Rightarrow> Num 1
      | Num v \<Rightarrow> if v = 0 then Num 1 else Num v
      | Infinity \<Rightarrow> Infinity
      | MinusInfinity \<Rightarrow> MinusInfinity)"
  by (simp add: min_page_def js_or_def split: jsnumber.splits)

lemma page_bounds_numbers: "\<not> isNaN (max_page req)" "\<not> isNaN (min_page req)"
  by (simp_all add: max_page_cases min_page_cases isNaN_def split: jsnumber.splits)

text \<open>A bound is below 1 exactly when the parameter parses to a negative number.\<close>

lemma max_page_below_1:
  "js_less (max_page req) (Num 1) = js_less (parseInt (ToString (q_max req))) (Num 0)"
  by (auto simp add: max_page_cases split: jsnumber.splits)

lemma min_page_below_1:
  "js_less (min_page req) (Num 1) = js_less (parseInt (ToString (q_min req))) (Num 0)"
  by (auto simp add: min_page_cases split: jsnumber.splits)

lemma messages_differ: "js ''Invalid max page value'' \<noteq> js ''Invalid min page value''"
  by (simp add: js_def)

text \<open>The ranged handler once the document has been fetched.\<close>

lemma api_pdf_text_checked:
  assumes "\<not> falsy (pdfUrl req)" and "axios_get e (ToString (pdfUrl req)) = Inr pdfData"
  shows "api_pdf_text e req =
     (if js_less (max_page req) (Num 1)
      then catch_error [HttpGet (ToString (pdfUrl req))] (js ''Invalid max page value'')
      else if js_less (min_page req) (Num 1) \<or> js_less (max_page req) (min_page req)
      then catch_error [HttpGet (ToString (pdfUrl req))] (js ''Invalid min page value'')
      else
        (case pdfParse e pdfData
                (Some \<lparr>max_opt = max_page req, pagerender = ranged_pagerender (min_page req)\<rparr>) of
           Inl message \<Rightarrow>
             catch_error [HttpGet (ToString (pdfUrl req)), Parse pdfData] message
         | Inr text \<Rightarrow>
             (\<lparr>status = 200, body = TextBody (trim text)\<rparr>,
              [HttpGet (ToString (pdfUrl req)), Parse pdfData])))"
  using assms
  by (simp add: api_pdf_text_def Let_def page_bounds_numbers text_or_empty_id split: sum.splits)

lemma api_pdf_text_fetched:
  assumes "\<not> falsy (pdfUrl req)" and "axios_get e (ToString (pdfUrl req)) = Inr pdfData"
    and "max_page req = Num hi" and "min_page req = Num lo"
  shows "api_pdf_text e req =
     (if hi < 1 then catch_error [HttpGet (ToString (pdfUrl req))] (js ''Invalid max page value'')
      else if lo < 1 \<or> hi < lo
      then catch_error [HttpGet (ToString (pdfUrl req))] (js ''Invalid min page value'')
      else
        (case pdfParse e pdfData
                (Some \<lparr>max_opt = Num hi, pagerender = ranged_pagerender (Num lo)\<rparr>) of
           Inl message \<Rightarrow>
             catch_error [HttpGet (ToString (pdfUrl req)), Parse pdfData] message
         | Inr text \<Rightarrow>
             (\<lparr>status = 200, body = TextBody (trim text)\<rparr>,
              [HttpGet (ToString (pdfUrl req)), Parse pdfData])))"
  by (simp add: api_pdf_text_checked [OF assms(1,2)] assms(3,4))

lemma ranged_pagerender_page:
  "ranged_pagerender (Num lo) (getPage doc i) =
     (if int i < lo then [] else page_text (doc ! (i - 1)))"
  by (simp add: ranged_pagerender_def getPage_def page_text_def)

lemma pdfParse_ranged:
  assumes "getDocument e pdfData = Inr doc" and "1 \<le> hi"
  shows "pdfParse e pdfData (Some \<lparr>max_opt = Num hi, pagerender = ranged_pagerender (Num lo)\<rparr>)
           = Inr (ranged_pages (page_separator e) lo hi doc)"
proof -
  let ?n = "length doc"
  let ?c = "pageCounter (Num hi) ?n"
  let ?f = "\<lambda>i. page_separator e @ (if int i < lo then [] else page_text (doc ! (i - 1)))"
  have c: "?c = min ?n (nat hi)"
    using assms(2) by (auto simp add: min_def nat_le_iff le_nat_iff)
  have "ranged_pages (page_separator e) lo hi doc =
          concat (map (\<lambda>i. if i \<le> ?c then ?f i else []) [1..<Suc ?n])"
    unfolding ranged_pages_def
    by (rule arg_cong [where f = concat], rule map_cong) (use assms(2) c in auto)
  also have "\<dots> = concat (map ?f [1..<Suc ?c])"
    by (rule concat_map_upto_cut) (simp only: c min.cobounded1)
  finally have "ranged_pages (page_separator e) lo hi doc = concat (map ?f [1..<Suc ?c])" .
  then show ?thesis
    using assms(1) by (simp add: pdfParse_def renderPages_eq ranged_pagerender_page)
qed

lemma api_pdf_text_valid:
  assumes "\<not> falsy (pdfUrl req)" and "axios_get e (ToString (pdfUrl req)) = Inr pdfData"
    and "getDocument e pdfData = Inr doc"
    and "max_page req = Num hi" and "min_page req = Num lo" and "1 \<le> lo" and "lo \<le> hi"
  shows "api_pdf_text e req =
     (\<lparr>status = 200, body = TextBody (ranged_text (page_separator e) lo hi doc)\<rparr>,
      [HttpGet (ToString (pdfUrl req)), Parse pdfData])"
proof -
  have "1 \<le> hi" using assms(6,7) by simp
  then show ?thesis
    using assms
    by (simp add: api_pdf_text_fetched [OF assms(1,2,4,5)] pdfParse_ranged ranged_text_def)
qed

lemma ranged_text_no_separator: "ranged_text [] lo hi doc = spec_ranged_text lo hi doc"
  unfolding ranged_text_def ranged_pages_def spec_ranged_text_def
  by (rule arg_cong [where f = trim], rule arg_cong [where f = concat], rule map_cong) auto

lemma parsed_max:
  "parseInt (ToString (q_max req)) = Num hi \<Longrightarrow> hi \<noteq> 0 \<Longrightarrow> max_page req = Num hi"
  by (simp add: max_page_cases)

lemma parsed_min:
  "parseInt (ToString (q_min req)) = Num lo \<Longrightarrow> lo \<noteq> 0 \<Longrightarrow> min_page req = Num lo"
  by (simp add: min_page_cases)

lemma single_page:
  assumes "all_whitespace sep" and "1 \<le> k"
  shows "ranged_text sep (int k) (int k) doc = single_page_text k doc"
proof -
  let ?n = "length doc"
  let ?c = "min ?n k"
  let ?f = "\<lambda>i. sep @ (if i < k then [] else page_text (doc ! (i - 1)))"
  have "ranged_pages sep (int k) (int k) doc =
          concat (map (\<lambda>i. if i \<le> ?c then ?f i else []) [1..<Suc ?n])"
    unfolding ranged_pages_def
    by (rule arg_cong [where f = concat], rule map_cong) auto
  also have "\<dots> = concat (map ?f [1..<Suc ?c])"
    by (rule concat_map_upto_cut) simp
  also have "[1..<Suc ?c] = [Suc 0..<Suc ?c]"
    by simp
  finally have pages: "ranged_pages sep (int k) (int k) doc = concat (map ?f [Suc 0..<Suc ?c])" .
  have skipped: "map ?f [Suc 0..<m] = map (\<lambda>i. sep) [Suc 0..<m]" if "m \<le> k" for m
    by (rule map_cong) (use that in auto)
  show ?thesis
  proof (cases "k \<le> ?n")
    case True
    then have c: "?c = k" by simp
    have upto: "[Suc 0..<Suc k] = [Suc 0..<k] @ [k]"
      using assms(2) by simp
    have "ranged_pages sep (int k) (int k) doc = concat (map ?f ([Suc 0..<k] @ [k]))"
      by (simp only: pages c upto)
    also have "\<dots> = (concat (map (\<lambda>i. sep) [Suc 0..<k]) @ sep) @ page_text (doc ! (k - 1))"
      by (simp only: map_append concat_append skipped [OF le_refl]) simp
    finally have split:
      "ranged_pages sep (int k) (int k) doc =
         (concat (map (\<lambda>i. sep) [Suc 0..<k]) @ sep) @ page_text (doc ! (k - 1))" .
    have "all_whitespace (concat (map (\<lambda>i. sep) [Suc 0..<k]) @ sep)"
      using assms(1) by (simp add: all_whitespace_append all_whitespace_repeat)
    then have "trim (ranged_pages sep (int k) (int k) doc) = trim (page_text (doc ! (k - 1)))"
      by (simp only: split trim_whitespace_prefix)
    with True assms(2) show ?thesis
      by (simp add: ranged_text_def single_page_text_def)
  next
    case False
    then have c: "?c = ?n" and beyond: "Suc ?n \<le> k" by simp_all
    have "ranged_pages sep (int k) (int k) doc = concat (map (\<lambda>i. sep) [Suc 0..<Suc ?n])"
      by (simp only: pages c skipped [OF beyond])
    then have "trim (ranged_pages sep (int k) (int k) doc) = []"
      using assms(1) by (simp only: trim_all_whitespace all_whitespace_repeat)
    with False show ?thesis
      by (simp add: ranged_text_def single_page_text_def)
  qed
qed

lemma pdfParse_whole:
  assumes "getDocument e pdfData = Inr doc"
  shows "pdfParse e pdfData None =
           Inr (concat (map (\<lambda>i. page_separator e @ render_page e (getPage doc i))
                          [1..<Suc (length doc)]))"
  using assms by (simp add: pdfParse_def defaultOptions_def renderPages_eq)

lemma ranged_pages_whole:
  assumes "int (length doc) \<le> hi"
  shows "ranged_pages sep 1 hi doc =
           concat (map (\<lambda>i. sep @ page_text (doc ! (i - 1))) [1..<Suc (length doc)])"
  unfolding ranged_pages_def
  by (rule arg_cong [where f = concat], rule map_cong) (use assms in auto)

lemma api_pdf_text_all_parsed:
  assumes "\<not> falsy (pdfUrl req)" and "axios_get e (ToString (pdfUrl req)) = Inr pdfData"
    and "getDocument e pdfData = Inr doc"
  shows "api_pdf_text_all e req =
     (\<lparr>status = 200,
        body = TextBody (trim (concat (map (\<lambda>i. page_separator e @ render_page e (getPage doc i))
                                         [1..<Suc (length doc)])))\<rparr>,
      [HttpGet (ToString (pdfUrl req)), Parse pdfData])"
  using assms by (simp add: api_pdf_text_all_def pdfParse_whole text_or_empty_id)

lemma api_pdf_text_fetched_status_ok:
  assumes "\<not> falsy (pdfUrl req)" and "axios_get e (ToString (pdfUrl req)) = Inr pdfData"
    and "getDocument e pdfData = Inr doc"
    and "max_page req = Num hi" and "min_page req = Num lo" and "1 \<le> lo" and "lo \<le> hi"
  shows "status (fst (api_pdf_text e req)) = 200"
  using assms by (simp add: api_pdf_text_valid)

section \<open>The concrete requests and environments evaluated\<close>

lemma example_numbers:
  "parseInt (js ''1'') = Num 1" "parseInt (js ''2'') = Num 2" "parseInt (js ''5'') = Num 5"
  "parseInt (js ''200'') = Num 200"
  "parseInt (js ''0'') = Num 0" "parseInt (js ''-1'') = Num (- 1)" "parseInt (js ''abc'') = NaN"
  "parseInt (ToString None) = NaN"
  by (simp_all add: parseInt_def ToString_def js_def trimStart_def isWhiteSpace_def radixDigit_def
      digitValue_def mathInt_def toDouble_def)

text \<open>Numerals beyond \<open>2 ^ 53\<close> are rounded as the program rounds them.\<close>

lemma example_rounding:
  "parseInt (js ''9007199254740993'') = Num 9007199254740992"
  "parseInt (js ''9007199254740992'') = Num 9007199254740992"
  "parseInt (js ''9007199254740995'') = Num 9007199254740996"
  "parseInt (js ''-9007199254740993'') = Num (- 9007199254740992)"
  by (simp_all add: parseInt_def js_def trimStart_def isWhiteSpace_def radixDigit_def
      digitValue_def mathInt_def toDouble_def bitLength.simps Let_def)

lemma ranged_request_fields:
  "\<not> falsy (pdfUrl (ranged_request lo hi))"
  "ToString (pdfUrl (ranged_request lo hi)) = doc_url"
  "ToString (q_min (ranged_request lo hi)) = js lo"
  "ToString (q_max (ranged_request lo hi)) = js hi"
  by (simp_all add: ranged_request_def falsy_def ToString_def doc_url_def js_def)

lemma min_only_request_fields:
  "\<not> falsy (pdfUrl (min_only_request lo))"
  "ToString (pdfUrl (min_only_request lo)) = doc_url"
  "ToString (q_min (min_only_request lo)) = js lo"
  "q_max (min_only_request lo) = None"
  by (simp_all add: min_only_request_def falsy_def ToString_def doc_url_def js_def)

lemma example_envs:
  "axios_get online url = Inr pdf_bytes" "getDocument online data = Inr two_pages"
  "page_separator online = [0x0A, 0x0A]"
  "axios_get offline url = Inl (js ''Network Error'')"
  "axios_get unseparated url = Inr pdf_bytes" "getDocument unseparated data = Inr two_pages"
  "page_separator unseparated = []"
  "axios_get spaced url = Inr pdf_bytes" "getDocument spaced data = Inr two_pages"
  "render_page spaced pageData = page_text (items pageData)"
  "page_separator spaced = [0x0A, 0x0A]"
  by (simp_all add: online_def offline_def unseparated_def spaced_def)

lemma example_texts:
  "ranged_text [0x0A, 0x0A] 1 2 two_pages = js ''a b'' @ [0x0A, 0x0A] @ js ''c''"
  "spec_ranged_text 1 2 two_pages = js ''a bc''"
  "single_page_text 2 two_pages = js ''c''"
  by (simp_all add: ranged_text_def ranged_pages_def spec_ranged_text_def single_page_text_def
      two_pages_def page_text_def js_def trim_def trimStart_def trimEnd_def isWhiteSpace_def upt_rec)

lemma example_whole_texts:
  "trim (concat (map (\<lambda>i. page_separator online @ render_page online (getPage two_pages i))
                   [1..<Suc (length two_pages)])) = js ''ab'' @ [0x0A, 0x0A] @ js ''c''"
  by (simp add: online_def two_pages_def getPage_def js_def trim_def trimStart_def trimEnd_def
      isWhiteSpace_def upt_rec)

text \<open>
  Two numerals that round to the same double are equal bounds: the request is accepted.
\<close>

lemma rounded_bounds_accepted:
  "status (fst (api_pdf_text online
      (ranged_request ''9007199254740993'' ''9007199254740992''))) = 200"
  by (rule api_pdf_text_fetched_status_ok
        [where hi = 9007199254740992 and lo = 9007199254740992])
    (simp_all add: max_page_cases min_page_cases ranged_request_fields example_rounding
      example_envs)

section \<open>The claims\<close>

text \<open>
  C1, amended. For every request to /api/pdf-text with pdfUrl given whose document is
  fetched and parses, and whose min and max parse to integers \<open>lo\<close> and \<open>hi\<close> with
  \<open>1 \<le> lo \<le> hi\<close>, the answer is HTTP 200 with this text: for every page up to \<open>hi\<close>, in
  page order, the parser's page separator followed by the empty string when the page number
  is below \<open>lo\<close> and by the page's fragments joined by a single space otherwise, all
  concatenated and trimmed. When the parser puts nothing in front of a page, this is the
  text of section 4.2 of the specification.
\<close>

theorem ranged_text_returned:
  assumes "\<not> falsy (pdfUrl req)"
    and "axios_get e (ToString (pdfUrl req)) = Inr pdfData"
    and "getDocument e pdfData = Inr doc"
    and "parseInt (ToString (q_min req)) = Num lo"
    and "parseInt (ToString (q_max req)) = Num hi"
    and "1 \<le> lo" and "lo \<le> hi"
  shows "fst (api_pdf_text e req) =
           \<lparr>status = 200, body = TextBody (ranged_text (page_separator e) lo hi doc)\<rparr>
       \<and> (page_separator e = [] \<longrightarrow>
            fst (api_pdf_text e req) =
              \<lparr>status = 200, body = TextBody (spec_ranged_text lo hi doc)\<rparr>)"
proof -
  have "max_page req = Num hi" and "min_page req = Num lo"
    using assms(4-7) by (simp_all add: parsed_max parsed_min)
  then have "api_pdf_text e req =
     (\<lparr>status = 200, body = TextBody (ranged_text (page_separator e) lo hi doc)\<rparr>,
      [HttpGet (ToString (pdfUrl req)), Parse pdfData])"
    using assms by (simp add: api_pdf_text_valid)
  then show ?thesis
    by (auto simp add: ranged_text_no_separator)
qed

theorem ranged_text_returned_witness:
  "fst (api_pdf_text online (ranged_request ''1'' ''2'')) =
     \<lparr>status = 200, body = TextBody (js ''a b'' @ [0x0A, 0x0A] @ js ''c'')\<rparr>
   \<and> fst (api_pdf_text unseparated (ranged_request ''1'' ''2'')) =
     \<lparr>status = 200, body = TextBody (js ''a bc'')\<rparr>"
  using ranged_text_returned [of "ranged_request ''1'' ''2''" online pdf_bytes two_pages 1 2]
    ranged_text_returned [of "ranged_request ''1'' ''2''" unseparated pdf_bytes two_pages 1 2]
  by (simp add: ranged_request_fields example_envs example_numbers example_texts
      ranged_text_no_separator)

text \<open>
  C1 as stated fails. The text of section 4.2, which has nothing between the pages, is
  not what the handler returns when the parser puts line feeds in front of every page: for the two-page
  document and the range 1 to 2 the answer keeps the blank line between "a b" and "c".
\<close>

theorem ranged_text_counterexample:
  "\<not> falsy (pdfUrl (ranged_request ''1'' ''2''))
   \<and> axios_get online (ToString (pdfUrl (ranged_request ''1'' ''2''))) = Inr pdf_bytes
   \<and> getDocument online pdf_bytes = Inr two_pages
   \<and> parseInt (ToString (q_min (ranged_request ''1'' ''2''))) = Num 1
   \<and> parseInt (ToString (q_max (ranged_request ''1'' ''2''))) = Num 2
   \<and> fst (api_pdf_text online (ranged_request ''1'' ''2'')) \<noteq>
       \<lparr>status = 200, body = TextBody (spec_ranged_text 1 2 two_pages)\<rparr>"
proof -
  have "api_pdf_text online (ranged_request ''1'' ''2'') =
     (\<lparr>status = 200, body = TextBody (ranged_text (page_separator online) 1 2 two_pages)\<rparr>,
      [HttpGet (ToString (pdfUrl (ranged_request ''1'' ''2''))), Parse pdf_bytes])"
    by (rule api_pdf_text_valid)
      (simp_all add: ranged_request_fields example_envs example_numbers parsed_max parsed_min)
  moreover have "js ''a b'' @ [0x0A, 0x0A] @ js ''c'' \<noteq> js ''a bc''"
    by (simp add: js_def)
  ultimately show ?thesis
    by (simp add: ranged_request_fields example_envs example_numbers example_texts)
qed

text \<open>
  C2. A request to /api/pdf-text or to /api/pdf-text-all without the query parameter
  pdfUrl is answered with HTTP 400 and an error body, whatever the other parameters are,
  and nothing is fetched or parsed.
\<close>

theorem missing_pdfUrl:
  "app e PdfText (req\<lparr>pdfUrl := None\<rparr>)
     = (\<lparr>status = 400, body = ErrorBody (js ''Missing pdfUrl parameter'')\<rparr>, [])
   \<and> app e PdfTextAll (req\<lparr>pdfUrl := None\<rparr>)
     = (\<lparr>status = 400, body = ErrorBody (js ''Missing pdfUrl parameter'')\<rparr>, [])"
  by (simp add: api_pdf_text_def api_pdf_text_all_def falsy_def)

theorem missing_pdfUrl_witness:
  "app offline PdfText \<lparr>pdfUrl = None, q_min = Some (js ''7''), q_max = Some (js ''-3'')\<rparr>
     = (\<lparr>status = 400, body = ErrorBody (js ''Missing pdfUrl parameter'')\<rparr>, [])
   \<and> app online PdfTextAll \<lparr>pdfUrl = None, q_min = None, q_max = None\<rparr>
     = (\<lparr>status = 400, body = ErrorBody (js ''Missing pdfUrl parameter'')\<rparr>, [])"
  using missing_pdfUrl [of offline "\<lparr>pdfUrl = None, q_min = Some (js ''7''), q_max = Some (js ''-3'')\<rparr>"]
    missing_pdfUrl [of online "\<lparr>pdfUrl = None, q_min = None, q_max = None\<rparr>"]
  by simp

text \<open>
  C3, amended. A request to /api/pdf-text without pdfUrl is answered with HTTP 400 and a
  short error string. A request with pdfUrl whose document is fetched, whose min and max
  are each absent or parse to a number other than 0, and whose bounds the handler rejects
  is answered with HTTP 500 and the label "Failed to process PDF": with the message
  "Invalid max page value" when max is below 1, and with "Invalid min page value" when
  max is not and min is below 1 or above max.
\<close>

theorem client_error_status:
  "(falsy (pdfUrl req) \<longrightarrow>
      fst (api_pdf_text e req) =
        \<lparr>status = 400, body = ErrorBody (js ''Missing pdfUrl parameter'')\<rparr>)
   \<and> (\<not> falsy (pdfUrl req) \<and> axios_get e (ToString (pdfUrl req)) = Inr pdfData
        \<and> plain_bound (q_min req) \<and> plain_bound (q_max req)
        \<and> (js_less (max_page req) (Num 1) \<or> js_less (min_page req) (Num 1)
             \<or> js_less (max_page req) (min_page req)) \<longrightarrow>
      fst (api_pdf_text e req) =
        \<lparr>status = 500,
          body = FailureBody (js ''Failed to process PDF'')
                   (if js_less (max_page req) (Num 1) then js ''Invalid max page value''
                    else js ''Invalid min page value'')\<rparr>)"
proof (intro conjI impI)
  assume "falsy (pdfUrl req)"
  then show "fst (api_pdf_text e req) =
        \<lparr>status = 400, body = ErrorBody (js ''Missing pdfUrl parameter'')\<rparr>"
    by (simp add: api_pdf_text_def)
next
  assume rejected: "\<not> falsy (pdfUrl req) \<and> axios_get e (ToString (pdfUrl req)) = Inr pdfData
        \<and> plain_bound (q_min req) \<and> plain_bound (q_max req)
        \<and> (js_less (max_page req) (Num 1) \<or> js_less (min_page req) (Num 1)
             \<or> js_less (max_page req) (min_page req))"
  then have "\<not> falsy (pdfUrl req)" and "axios_get e (ToString (pdfUrl req)) = Inr pdfData"
    by simp_all
  from api_pdf_text_checked [OF this] rejected
  show "fst (api_pdf_text e req) =
        \<lparr>status = 500,
          body = FailureBody (js ''Failed to process PDF'')
                   (if js_less (max_page req) (Num 1) then js ''Invalid max page value''
                    else js ''Invalid min page value'')\<rparr>"
    by (auto simp add: catch_error_def)
qed

theorem client_error_status_witness:
  "falsy (pdfUrl \<lparr>pdfUrl = None, q_min = None, q_max = None\<rparr>)
   \<and> fst (api_pdf_text online \<lparr>pdfUrl = None, q_min = None, q_max = None\<rparr>) =
        \<lparr>status = 400, body = ErrorBody (js ''Missing pdfUrl parameter'')\<rparr>
   \<and> plain_bound (q_min (ranged_request ''1'' ''-1''))
   \<and> plain_bound (q_max (ranged_request ''1'' ''-1''))
   \<and> js_less (max_page (ranged_request ''1'' ''-1'')) (Num 1)
   \<and> fst (api_pdf_text online (ranged_request ''1'' ''-1'')) =
        \<lparr>status = 500,
          body = FailureBody (js ''Failed to process PDF'') (js ''Invalid max page value'')\<rparr>
   \<and> plain_bound (q_min (ranged_request ''5'' ''2''))
   \<and> plain_bound (q_max (ranged_request ''5'' ''2''))
   \<and> \<not> js_less (max_page (ranged_request ''5'' ''2'')) (Num 1)
   \<and> js_less (max_page (ranged_request ''5'' ''2'')) (min_page (ranged_request ''5'' ''2''))
   \<and> fst (api_pdf_text online (ranged_request ''5'' ''2'')) =
        \<lparr>status = 500,
          body = FailureBody (js ''Failed to process PDF'') (js ''Invalid min page value'')\<rparr>
   \<and> plain_bound (q_max (min_only_request ''200''))
   \<and> max_page (min_only_request ''200'') = Num 100
   \<and> fst (api_pdf_text online (min_only_request ''200'')) =
        \<lparr>status = 500,
          body = FailureBody (js ''Failed to process PDF'') (js ''Invalid min page value'')\<rparr>"
proof -
  have absent: "falsy (pdfUrl \<lparr>pdfUrl = None, q_min = None, q_max = None\<rparr>)"
    by (simp add: falsy_def)
  have plain: "plain_bound (q_min (ranged_request ''1'' ''-1''))"
    "plain_bound (q_max (ranged_request ''1'' ''-1''))"
    "plain_bound (q_min (ranged_request ''5'' ''2''))"
    "plain_bound (q_max (ranged_request ''5'' ''2''))"
    "plain_bound (q_min (min_only_request ''200''))"
    "plain_bound (q_max (min_only_request ''200''))"
    by (simp_all add: plain_bound_def ranged_request_fields min_only_request_fields
        example_numbers)
  have bounds: "max_page (ranged_request ''1'' ''-1'') = Num (- 1)"
    "max_page (ranged_request ''5'' ''2'') = Num 2"
    "min_page (ranged_request ''5'' ''2'') = Num 5"
    "max_page (min_only_request ''200'') = Num 100"
    "min_page (min_only_request ''200'') = Num 200"
    by (simp_all add: max_page_cases min_page_cases ranged_request_fields
        min_only_request_fields example_numbers)
  from client_error_status [of "\<lparr>pdfUrl = None, q_min = None, q_max = None\<rparr>" online pdf_bytes]
    client_error_status [of "ranged_request ''1'' ''-1''" online pdf_bytes]
    client_error_status [of "ranged_request ''5'' ''2''" online pdf_bytes]
    client_error_status [of "min_only_request ''200''" online pdf_bytes]
  show ?thesis
    using absent plain
    by (simp add: bounds ranged_request_fields min_only_request_fields example_envs)
qed

text \<open>
  C3 as stated fails: a max of -1 is rejected with HTTP 500, not with HTTP 400.
\<close>

theorem client_error_status_counterexample:
  "\<not> falsy (pdfUrl (ranged_request ''1'' ''-1''))
   \<and> parseInt (ToString (q_max (ranged_request ''1'' ''-1''))) = Num (- 1)
   \<and> status (fst (api_pdf_text online (ranged_request ''1'' ''-1''))) = 500
   \<and> status (fst (api_pdf_text online (ranged_request ''1'' ''-1''))) \<noteq> 400"
proof -
  have "api_pdf_text online (ranged_request ''1'' ''-1'') =
          catch_error [HttpGet doc_url] (js ''Invalid max page value'')"
    using api_pdf_text_fetched [of "ranged_request ''1'' ''-1''" online pdf_bytes "- 1" 1]
    by (simp add: max_page_cases min_page_cases ranged_request_fields example_numbers example_envs)
  then show ?thesis
    by (simp add: catch_error_def ranged_request_fields example_numbers)
qed

text \<open>
  C4, amended. For every request to /api/pdf-text with pdfUrl given whose document is
  fetched, whose max parses to a number that is at least 1 and whose min parses to a
  number above the parsed max, the answer is HTTP 500 with the message
  "Invalid min page value". The numbers are the ones \<^verbatim>\<open>parseInt\<close> returns: two numerals
  that round to the same double do not exceed one another.
\<close>

theorem min_exceeds_max:
  assumes "\<not> falsy (pdfUrl req)"
    and "axios_get e (ToString (pdfUrl req)) = Inr pdfData"
    and "js_less (Num 0) (parseInt (ToString (q_max req)))"
    and "js_less (parseInt (ToString (q_max req))) (parseInt (ToString (q_min req)))"
  shows "fst (api_pdf_text e req) =
           \<lparr>status = 500,
             body = FailureBody (js ''Failed to process PDF'') (js ''Invalid min page value'')\<rparr>"
proof -
  obtain hi where hi: "parseInt (ToString (q_max req)) = Num hi" and "0 < hi"
    using assms(3,4) by (cases "parseInt (ToString (q_max req))") simp_all
  then have max_bound: "max_page req = Num hi"
    by (simp add: parsed_max)
  have min_bound: "min_page req = parseInt (ToString (q_min req))"
    using assms(4) hi \<open>0 < hi\<close>
    by (cases "parseInt (ToString (q_min req))") (simp_all add: min_page_cases)
  have "\<not> js_less (max_page req) (Num 1)" and "js_less (max_page req) (min_page req)"
    using assms(4) hi \<open>0 < hi\<close> by (simp_all add: max_bound min_bound)
  then show ?thesis
    by (simp add: api_pdf_text_checked [OF assms(1,2)] catch_error_def)
qed

theorem min_exceeds_max_witness:
  "js_less (Num 0) (parseInt (ToString (q_max (ranged_request ''5'' ''2''))))
   \<and> js_less (parseInt (ToString (q_max (ranged_request ''5'' ''2''))))
        (parseInt (ToString (q_min (ranged_request ''5'' ''2''))))
   \<and> fst (api_pdf_text online (ranged_request ''5'' ''2'')) =
        \<lparr>status = 500,
          body = FailureBody (js ''Failed to process PDF'') (js ''Invalid min page value'')\<rparr>"
  using min_exceeds_max [of "ranged_request ''5'' ''2''" online pdf_bytes]
  by (simp add: ranged_request_fields example_envs example_numbers)

text \<open>
  C4 as stated fails. A parsed min above the parsed max does not always give that answer: with max = -1 the
  message is "Invalid max page value", which is checked first; with max = 0 the bound
  becomes 100 and the request succeeds; and when the fetch fails the message is the one of
  the fetch.
\<close>

theorem min_exceeds_max_counterexample:
  "parseInt (ToString (q_min (ranged_request ''5'' ''-1''))) = Num 5
   \<and> parseInt (ToString (q_max (ranged_request ''5'' ''-1''))) = Num (- 1)
   \<and> fst (api_pdf_text online (ranged_request ''5'' ''-1'')) =
        \<lparr>status = 500,
          body = FailureBody (js ''Failed to process PDF'') (js ''Invalid max page value'')\<rparr>
   \<and> js ''Invalid max page value'' \<noteq> js ''Invalid min page value''
   \<and> parseInt (ToString (q_min (ranged_request ''5'' ''0''))) = Num 5
   \<and> parseInt (ToString (q_max (ranged_request ''5'' ''0''))) = Num 0
   \<and> status (fst (api_pdf_text online (ranged_request ''5'' ''0''))) = 200
   \<and> fst (api_pdf_text offline (ranged_request ''5'' ''2'')) =
        \<lparr>status = 500,
          body = FailureBody (js ''Failed to process PDF'') (js ''Network Error'')\<rparr>"
proof -
  have "api_pdf_text online (ranged_request ''5'' ''-1'') =
          catch_error [HttpGet doc_url] (js ''Invalid max page value'')"
    using api_pdf_text_fetched [of "ranged_request ''5'' ''-1''" online pdf_bytes "- 1" 5]
    by (simp add: max_page_cases min_page_cases ranged_request_fields example_numbers example_envs)
  moreover have "status (fst (api_pdf_text online (ranged_request ''5'' ''0''))) = 200"
    by (rule api_pdf_text_fetched_status_ok [where hi = 100 and lo = 5])
      (simp_all add: max_page_cases min_page_cases ranged_request_fields example_numbers
        example_envs)
  moreover have "api_pdf_text offline (ranged_request ''5'' ''2'') =
          catch_error [HttpGet doc_url] (js ''Network Error'')"
    by (simp add: api_pdf_text_def ranged_request_fields example_envs)
  ultimately show ?thesis
    by (simp add: catch_error_def ranged_request_fields example_numbers messages_differ)
qed

text \<open>
  C5, amended. For every request to /api/pdf-text with pdfUrl given whose document is
  fetched and whose max parameter parses to a negative integer, the answer is HTTP 500
  with the message "Invalid max page value".
\<close>

theorem negative_max:
  assumes "\<not> falsy (pdfUrl req)"
    and "axios_get e (ToString (pdfUrl req)) = Inr pdfData"
    and "parseInt (ToString (q_max req)) = Num m" and "m < 0"
  shows "fst (api_pdf_text e req) =
           \<lparr>status = 500,
             body = FailureBody (js ''Failed to process PDF'') (js ''Invalid max page value'')\<rparr>"
proof -
  have hi: "max_page req = Num m"
    using assms(3,4) by (simp add: parsed_max)
  show ?thesis
    using assms(4) by (simp add: api_pdf_text_checked [OF assms(1,2)] hi catch_error_def)
qed

theorem negative_max_witness:
  "parseInt (ToString (q_max (ranged_request ''1'' ''-1''))) = Num (- 1)
   \<and> fst (api_pdf_text online (ranged_request ''1'' ''-1'')) =
        \<lparr>status = 500,
          body = FailureBody (js ''Failed to process PDF'') (js ''Invalid max page value'')\<rparr>"
  using negative_max [of "ranged_request ''1'' ''-1''" online pdf_bytes "- 1"]
  by (simp add: ranged_request_fields example_envs example_numbers)

text \<open>
  C5 as stated fails. A max that is not a number, or that is 0, is not rejected: the
  request succeeds. And when the fetch fails, a max of -1 is answered with the message of the fetch.
\<close>

theorem negative_max_counterexample:
  "parseInt (ToString (q_max (ranged_request ''1'' ''abc''))) = NaN
   \<and> status (fst (api_pdf_text online (ranged_request ''1'' ''abc''))) = 200
   \<and> parseInt (ToString (q_max (ranged_request ''1'' ''0''))) = Num 0
   \<and> status (fst (api_pdf_text online (ranged_request ''1'' ''0''))) = 200
   \<and> parseInt (ToString (q_max (ranged_request ''1'' ''-1''))) = Num (- 1)
   \<and> fst (api_pdf_text offline (ranged_request ''1'' ''-1'')) =
        \<lparr>status = 500,
          body = FailureBody (js ''Failed to process PDF'') (js ''Network Error'')\<rparr>
   \<and> js ''Network Error'' \<noteq> js ''Invalid max page value''"
proof -
  have "status (fst (api_pdf_text online (ranged_request ''1'' ''abc''))) = 200"
    by (rule api_pdf_text_fetched_status_ok [where hi = 100 and lo = 1])
      (simp_all add: max_page_cases min_page_cases ranged_request_fields example_numbers
        example_envs)
  moreover have "status (fst (api_pdf_text online (ranged_request ''1'' ''0''))) = 200"
    by (rule api_pdf_text_fetched_status_ok [where hi = 100 and lo = 1])
      (simp_all add: max_page_cases min_page_cases ranged_request_fields example_numbers
        example_envs)
  moreover have "api_pdf_text offline (ranged_request ''1'' ''-1'') =
          catch_error [HttpGet doc_url] (js ''Network Error'')"
    by (simp add: api_pdf_text_def ranged_request_fields example_envs)
  moreover have "js ''Network Error'' \<noteq> js ''Invalid max page value''"
    by (simp add: js_def)
  ultimately show ?thesis
    by (simp add: catch_error_def ranged_request_fields example_numbers)
qed

text \<open>
  C6, amended. For every document that is fetched and parses, with \<open>n\<close> pages, a request
  to /api/pdf-text whose min parses to 1 and whose max parses to \<open>n\<close> gets the same answer
  as the same request to /api/pdf-text-all, provided the parser's own renderer gives, on
  every page of the document, the page's fragments joined by single spaces. The ranged
  handler always renders a page that way (line 77); the whole-document handler leaves the
  rendering to the parser (line 120).
\<close>

theorem ranged_equals_whole:
  assumes "\<not> falsy (pdfUrl req)"
    and "axios_get e (ToString (pdfUrl req)) = Inr pdfData"
    and "getDocument e pdfData = Inr doc"
    and "parseInt (ToString (q_min req)) = Num 1"
    and "parseInt (ToString (q_max req)) = Num (int (length doc))"
    and "\<forall>i. 1 \<le> i \<and> i \<le> length doc \<longrightarrow>
           render_page e (getPage doc i) = page_text (items (getPage doc i))"
  shows "api_pdf_text e req = api_pdf_text_all e req"
proof -
  obtain hi where hi: "max_page req = Num hi" and cover: "int (length doc) \<le> hi"
    and "1 \<le> hi"
    using assms(5) by (cases "length doc = 0") (simp_all add: max_page_cases)
  have lo: "min_page req = Num 1"
    using assms(4) by (simp add: parsed_min)
  from \<open>1 \<le> hi\<close> have ranged: "api_pdf_text e req =
     (\<lparr>status = 200, body = TextBody (ranged_text (page_separator e) 1 hi doc)\<rparr>,
      [HttpGet (ToString (pdfUrl req)), Parse pdfData])"
    using assms(1-3) hi lo by (simp add: api_pdf_text_valid)
  have "map (\<lambda>i. page_separator e @ render_page e (getPage doc i)) [1..<Suc (length doc)] =
        map (\<lambda>i. page_separator e @ page_text (doc ! (i - 1))) [1..<Suc (length doc)]"
    by (rule map_cong) (use assms(6) in \<open>auto simp add: getPage_def\<close>)
  then show ?thesis
    using cover
    by (simp only: ranged api_pdf_text_all_parsed [OF assms(1-3)] ranged_text_def
        ranged_pages_whole)
qed

theorem ranged_equals_whole_witness:
  "parseInt (ToString (q_min (ranged_request ''1'' ''2''))) = Num 1
   \<and> parseInt (ToString (q_max (ranged_request ''1'' ''2''))) = Num (int (length two_pages))
   \<and> api_pdf_text spaced (ranged_request ''1'' ''2'') =
       api_pdf_text_all spaced (ranged_request ''1'' ''2'')"
proof -
  have numbers: "parseInt (ToString (q_min (ranged_request ''1'' ''2''))) = Num 1"
    "parseInt (ToString (q_max (ranged_request ''1'' ''2''))) = Num (int (length two_pages))"
    by (simp_all add: ranged_request_fields example_numbers two_pages_def)
  have "api_pdf_text spaced (ranged_request ''1'' ''2'') =
          api_pdf_text_all spaced (ranged_request ''1'' ''2'')"
    by (rule ranged_equals_whole [where doc = two_pages and pdfData = pdf_bytes, OF _ _ _ numbers])
      (simp_all add: ranged_request_fields example_envs)
  with numbers show ?thesis by simp
qed

text \<open>
  C6 as stated fails. With a parser whose own renderer appends the fragments of a page
  with nothing between them, the two handlers differ on the two-page document: "a b" against "ab" on page 1.
\<close>

theorem ranged_equals_whole_counterexample:
  "parseInt (ToString (q_min (ranged_request ''1'' ''2''))) = Num 1
   \<and> parseInt (ToString (q_max (ranged_request ''1'' ''2''))) = Num (int (length two_pages))
   \<and> getDocument online pdf_bytes = Inr two_pages
   \<and> fst (api_pdf_text online (ranged_request ''1'' ''2'')) =
       \<lparr>status = 200, body = TextBody (js ''a b'' @ [0x0A, 0x0A] @ js ''c'')\<rparr>
   \<and> fst (api_pdf_text_all online (ranged_request ''1'' ''2'')) =
       \<lparr>status = 200, body = TextBody (js ''ab'' @ [0x0A, 0x0A] @ js ''c'')\<rparr>
   \<and> api_pdf_text online (ranged_request ''1'' ''2'') \<noteq>
       api_pdf_text_all online (ranged_request ''1'' ''2'')"
proof -
  have numbers: "parseInt (ToString (q_min (ranged_request ''1'' ''2''))) = Num 1"
    "parseInt (ToString (q_max (ranged_request ''1'' ''2''))) = Num (int (length two_pages))"
    by (simp_all add: ranged_request_fields example_numbers two_pages_def)
  have "api_pdf_text online (ranged_request ''1'' ''2'') =
     (\<lparr>status = 200, body = TextBody (ranged_text (page_separator online) 1 2 two_pages)\<rparr>,
      [HttpGet (ToString (pdfUrl (ranged_request ''1'' ''2''))), Parse pdf_bytes])"
    by (rule api_pdf_text_valid)
      (simp_all add: ranged_request_fields example_envs example_numbers parsed_max parsed_min)
  then have ranged: "fst (api_pdf_text online (ranged_request ''1'' ''2'')) =
       \<lparr>status = 200, body = TextBody (js ''a b'' @ [0x0A, 0x0A] @ js ''c'')\<rparr>"
    by (simp add: example_envs example_texts)
  have "api_pdf_text_all online (ranged_request ''1'' ''2'') =
     (\<lparr>status = 200,
        body = TextBody (trim (concat (map (\<lambda>i. page_separator online @ render_page online (getPage two_pages i))
                                         [1..<Suc (length two_pages)])))\<rparr>,
      [HttpGet (ToString (pdfUrl (ranged_request ''1'' ''2''))), Parse pdf_bytes])"
    by (rule api_pdf_text_all_parsed) (simp_all add: ranged_request_fields example_envs)
  then have whole: "fst (api_pdf_text_all online (ranged_request ''1'' ''2'')) =
       \<lparr>status = 200, body = TextBody (js ''ab'' @ [0x0A, 0x0A] @ js ''c'')\<rparr>"
    by (simp only: example_whole_texts fst_conv)
  have "js ''a b'' @ [0x0A, 0x0A] @ js ''c'' \<noteq> js ''ab'' @ [0x0A, 0x0A] @ js ''c''"
    by (simp add: js_def)
  with ranged whole have "api_pdf_text online (ranged_request ''1'' ''2'') \<noteq>
       api_pdf_text_all online (ranged_request ''1'' ''2'')"
    by (metis response.ext_inject json_body.inject(3))
  with numbers ranged whole show ?thesis
    by (simp add: example_envs)
qed

text \<open>
  C7. For every \<open>k \<ge> 1\<close>, a request to /api/pdf-text whose min and max both parse to \<open>k\<close>
  is answered with the text of page \<open>k\<close> alone (its fragments joined by single spaces,
  trimmed; no text when the document has fewer than \<open>k\<close> pages), the parser's page
  separator being white space, which trimming removes. The answer is determined by the
  request, the fetched bytes and the parsed document: an environment that agrees on these
  gives the same answer.
\<close>

theorem single_page_returned:
  assumes "\<not> falsy (pdfUrl req)"
    and "axios_get e (ToString (pdfUrl req)) = Inr pdfData"
    and "getDocument e pdfData = Inr doc"
    and "parseInt (ToString (q_min req)) = Num (int k)"
    and "parseInt (ToString (q_max req)) = Num (int k)"
    and "1 \<le> k"
    and "all_whitespace (page_separator e)"
  shows "fst (api_pdf_text e req) = \<lparr>status = 200, body = TextBody (single_page_text k doc)\<rparr>
       \<and> (\<forall>e'. axios_get e' (ToString (pdfUrl req)) = axios_get e (ToString (pdfUrl req))
               \<and> getDocument e' pdfData = getDocument e pdfData
               \<and> page_separator e' = page_separator e
             \<longrightarrow> api_pdf_text e' req = api_pdf_text e req)"
proof -
  have bounds: "max_page req = Num (int k)" "min_page req = Num (int k)"
    using assms(4-6) by (simp_all add: parsed_max parsed_min)
  have "api_pdf_text e req =
     (\<lparr>status = 200, body = TextBody (ranged_text (page_separator e) (int k) (int k) doc)\<rparr>,
      [HttpGet (ToString (pdfUrl req)), Parse pdfData])"
    using assms(1-3,6) bounds by (simp add: api_pdf_text_valid)
  then have first: "fst (api_pdf_text e req) =
      \<lparr>status = 200, body = TextBody (single_page_text k doc)\<rparr>"
    using assms(6,7) by (simp add: single_page)
  have "api_pdf_text e' req = api_pdf_text e req"
    if "axios_get e' (ToString (pdfUrl req)) = axios_get e (ToString (pdfUrl req))"
      and "getDocument e' pdfData = getDocument e pdfData"
      and "page_separator e' = page_separator e" for e'
  proof -
    have fetched: "axios_get e' (ToString (pdfUrl req)) = Inr pdfData"
      using that(1) assms(2) by simp
    have parsed: "pdfParse e' pdfData (Some opt) = pdfParse e pdfData (Some opt)" for opt
      by (simp add: pdfParse_def that(2,3) split: sum.splits)
    show ?thesis
      unfolding api_pdf_text_checked [OF assms(1) fetched]
        api_pdf_text_checked [OF assms(1,2)] parsed
      by (rule refl)
  qed
  with first show ?thesis by blast
qed

theorem single_page_returned_witness:
  "all_whitespace (page_separator online)
   \<and> fst (api_pdf_text online (ranged_request ''2'' ''2'')) =
       \<lparr>status = 200, body = TextBody (js ''c'')\<rparr>
   \<and> api_pdf_text spaced (ranged_request ''2'' ''2'') =
       api_pdf_text online (ranged_request ''2'' ''2'')"
proof -
  let ?req = "ranged_request ''2'' ''2''"
  have ws: "all_whitespace (page_separator online)"
    by (simp add: example_envs all_whitespace_def isWhiteSpace_def)
  have "fst (api_pdf_text online ?req) = \<lparr>status = 200, body = TextBody (single_page_text 2 two_pages)\<rparr>
       \<and> (\<forall>e'. axios_get e' (ToString (pdfUrl ?req)) = axios_get online (ToString (pdfUrl ?req))
               \<and> getDocument e' pdf_bytes = getDocument online pdf_bytes
               \<and> page_separator e' = page_separator online
             \<longrightarrow> api_pdf_text e' ?req = api_pdf_text online ?req)"
    by (rule single_page_returned [where k = 2 and doc = two_pages, OF _ _ _ _ _ _ ws])
      (simp_all add: ranged_request_fields example_envs example_numbers)
  then have page: "fst (api_pdf_text online ?req) =
        \<lparr>status = 200, body = TextBody (single_page_text 2 two_pages)\<rparr>"
    and same: "axios_get spaced (ToString (pdfUrl ?req)) = axios_get online (ToString (pdfUrl ?req))
               \<and> getDocument spaced pdf_bytes = getDocument online pdf_bytes
               \<and> page_separator spaced = page_separator online
             \<longrightarrow> api_pdf_text spaced ?req = api_pdf_text online ?req"
    by blast+
  from same have "api_pdf_text spaced ?req = api_pdf_text online ?req"
    by (simp add: example_envs)
  with ws page show ?thesis
    by (simp add: example_texts)
qed

text \<open>
  C8. Every request to /api/health is answered with HTTP 200 and the body
  \<^verbatim>\<open>{status: "ok"}\<close>, whatever the environment and the request, and the handler does
  nothing else.
\<close>

theorem health_ok:
  "app e Health req = (\<lparr>status = 200, body = StatusBody (js ''ok'')\<rparr>, [])"
  by (simp add: api_health_def)

text \<open>
  C9, amended. For every request to /api/pdf-text with pdfUrl given whose document is
  fetched: a max that is not a number or parses to 0 becomes 100 and a min that is not a
  number or parses to 0 becomes 1; the answer is the error "Invalid max page value"
  exactly when max parses to a negative number, and the error "Invalid min page value"
  exactly when max does not and min parses to a negative number or the min in effect
  exceeds the max in effect, defaults included; in every other case the document is
  parsed with the bounds in effect.
\<close>

theorem silent_defaults:
  assumes "\<not> falsy (pdfUrl req)" and "axios_get e (ToString (pdfUrl req)) = Inr pdfData"
  shows "((parseInt (ToString (q_max req)) = NaN \<or> parseInt (ToString (q_max req)) = Num 0)
            \<longrightarrow> max_page req = Num 100)
       \<and> ((parseInt (ToString (q_min req)) = NaN \<or> parseInt (ToString (q_min req)) = Num 0)
            \<longrightarrow> min_page req = Num 1)
       \<and> (api_pdf_text e req =
             catch_error [HttpGet (ToString (pdfUrl req))] (js ''Invalid max page value'')
            \<longleftrightarrow> js_less (parseInt (ToString (q_max req))) (Num 0))
       \<and> (api_pdf_text e req =
             catch_error [HttpGet (ToString (pdfUrl req))] (js ''Invalid min page value'')
            \<longleftrightarrow> \<not> js_less (parseInt (ToString (q_max req))) (Num 0)
                \<and> (js_less (parseInt (ToString (q_min req))) (Num 0)
                     \<or> js_less (max_page req) (min_page req)))
       \<and> (\<not> js_less (parseInt (ToString (q_max req))) (Num 0)
            \<and> \<not> js_less (parseInt (ToString (q_min req))) (Num 0)
            \<and> \<not> js_less (max_page req) (min_page req)
            \<longrightarrow> api_pdf_text e req =
                  (case pdfParse e pdfData
                          (Some \<lparr>max_opt = max_page req,
                                 pagerender = ranged_pagerender (min_page req)\<rparr>) of
                     Inl message \<Rightarrow>
                       catch_error [HttpGet (ToString (pdfUrl req)), Parse pdfData] message
                   | Inr text \<Rightarrow>
                       (\<lparr>status = 200, body = TextBody (trim text)\<rparr>,
                        [HttpGet (ToString (pdfUrl req)), Parse pdfData])))"
proof -
  note handler = api_pdf_text_checked [OF assms]
  have defaults: "(parseInt (ToString (q_max req)) = NaN \<or> parseInt (ToString (q_max req)) = Num 0)
            \<longrightarrow> max_page req = Num 100"
    "(parseInt (ToString (q_min req)) = NaN \<or> parseInt (ToString (q_min req)) = Num 0)
            \<longrightarrow> min_page req = Num 1"
    by (auto simp add: max_page_cases min_page_cases)
  have max_error: "api_pdf_text e req =
             catch_error [HttpGet (ToString (pdfUrl req))] (js ''Invalid max page value'')
            \<longleftrightarrow> js_less (parseInt (ToString (q_max req))) (Num 0)"
    unfolding max_page_below_1 [symmetric] using messages_differ
    by (auto simp add: handler catch_error_def split: sum.splits)
  have min_error: "api_pdf_text e req =
             catch_error [HttpGet (ToString (pdfUrl req))] (js ''Invalid min page value'')
            \<longleftrightarrow> \<not> js_less (parseInt (ToString (q_max req))) (Num 0)
                \<and> (js_less (parseInt (ToString (q_min req))) (Num 0)
                     \<or> js_less (max_page req) (min_page req))"
    unfolding max_page_below_1 [symmetric] min_page_below_1 [symmetric] using messages_differ
    by (auto simp add: handler catch_error_def split: sum.splits)
  have proceeds: "\<not> js_less (parseInt (ToString (q_max req))) (Num 0)
            \<and> \<not> js_less (parseInt (ToString (q_min req))) (Num 0)
            \<and> \<not> js_less (max_page req) (min_page req)
            \<longrightarrow> api_pdf_text e req =
                  (case pdfParse e pdfData
                          (Some \<lparr>max_opt = max_page req,
                                 pagerender = ranged_pagerender (min_page req)\<rparr>) of
                     Inl message \<Rightarrow>
                       catch_error [HttpGet (ToString (pdfUrl req)), Parse pdfData] message
                   | Inr text \<Rightarrow>
                       (\<lparr>status = 200, body = TextBody (trim text)\<rparr>,
                        [HttpGet (ToString (pdfUrl req)), Parse pdfData]))"
    unfolding max_page_below_1 [symmetric] min_page_below_1 [symmetric]
    by (simp add: handler)
  from defaults max_error min_error proceeds show ?thesis
    by (intro conjI)
qed

theorem silent_defaults_witness:
  "parseInt (ToString (q_max (ranged_request ''0'' ''abc''))) = NaN
   \<and> parseInt (ToString (q_min (ranged_request ''0'' ''abc''))) = Num 0
   \<and> max_page (ranged_request ''0'' ''abc'') = Num 100
   \<and> min_page (ranged_request ''0'' ''abc'') = Num 1
   \<and> api_pdf_text online (ranged_request ''0'' ''abc'') =
        (\<lparr>status = 200, body = TextBody (js ''a b'' @ [0x0A, 0x0A] @ js ''c'')\<rparr>,
         [HttpGet doc_url, Parse pdf_bytes])
   \<and> js_less (parseInt (ToString (q_max (ranged_request ''1'' ''-1'')))) (Num 0)
   \<and> api_pdf_text online (ranged_request ''1'' ''-1'') =
        catch_error [HttpGet doc_url] (js ''Invalid max page value'')
   \<and> js_less (max_page (ranged_request ''5'' ''2'')) (min_page (ranged_request ''5'' ''2''))
   \<and> api_pdf_text online (ranged_request ''5'' ''2'') =
        catch_error [HttpGet doc_url] (js ''Invalid min page value'')"
proof -
  let ?dflt = "ranged_request ''0'' ''abc''"
  have parsed: "parseInt (ToString (q_max ?dflt)) = NaN" "parseInt (ToString (q_min ?dflt)) = Num 0"
    by (simp_all add: ranged_request_fields example_numbers)
  have pages: "pdfParse online pdf_bytes
      (Some \<lparr>max_opt = Num 100, pagerender = ranged_pagerender (Num 1)\<rparr>) =
      Inr (ranged_pages [0x0A, 0x0A] 1 100 two_pages)"
    using pdfParse_ranged [of online pdf_bytes two_pages 100 1] by (simp add: example_envs)
  have page_texts: "trim (ranged_pages [0x0A, 0x0A] 1 100 two_pages) = js ''a b'' @ [0x0A, 0x0A] @ js ''c''"
    by (simp add: ranged_pages_def two_pages_def page_text_def js_def trim_def trimStart_def
        trimEnd_def isWhiteSpace_def upt_rec)
  from silent_defaults [of ?dflt online pdf_bytes]
  have first: "max_page ?dflt = Num 100 \<and> min_page ?dflt = Num 1
    \<and> api_pdf_text online ?dflt =
        (\<lparr>status = 200, body = TextBody (js ''a b'' @ [0x0A, 0x0A] @ js ''c'')\<rparr>,
         [HttpGet doc_url, Parse pdf_bytes])"
    by (simp add: ranged_request_fields example_numbers example_envs pages page_texts)
  from silent_defaults [of "ranged_request ''1'' ''-1''" online pdf_bytes]
  have second: "js_less (parseInt (ToString (q_max (ranged_request ''1'' ''-1'')))) (Num 0)
    \<and> api_pdf_text online (ranged_request ''1'' ''-1'') =
        catch_error [HttpGet doc_url] (js ''Invalid max page value'')"
    by (simp add: ranged_request_fields example_envs example_numbers)
  from silent_defaults [of "ranged_request ''5'' ''2''" online pdf_bytes]
  have third: "js_less (max_page (ranged_request ''5'' ''2'')) (min_page (ranged_request ''5'' ''2''))
    \<and> api_pdf_text online (ranged_request ''5'' ''2'') =
        catch_error [HttpGet doc_url] (js ''Invalid min page value'')"
    by (simp add: ranged_request_fields example_envs example_numbers
        max_page_cases min_page_cases)
  from parsed first second third show ?thesis by simp
qed

text \<open>
  C9 as stated fails. A max that is not a number is replaced by 100, but the request does
  not always go on without a validation error: with min = 200 it is rejected with
  "Invalid min page value" and nothing is parsed. And when the fetch fails, nothing is
  parsed whatever min and max are.
\<close>

theorem silent_defaults_counterexample:
  "parseInt (ToString (q_max (ranged_request ''200'' ''abc''))) = NaN
   \<and> max_page (ranged_request ''200'' ''abc'') = Num 100
   \<and> api_pdf_text online (ranged_request ''200'' ''abc'') =
        (\<lparr>status = 500,
           body = FailureBody (js ''Failed to process PDF'') (js ''Invalid min page value'')\<rparr>,
         [HttpGet doc_url, ConsoleError (js ''Invalid min page value'')])
   \<and> parseInt (ToString (q_min (ranged_request ''0'' ''abc''))) = Num 0
   \<and> api_pdf_text offline (ranged_request ''0'' ''abc'') =
        (\<lparr>status = 500,
           body = FailureBody (js ''Failed to process PDF'') (js ''Network Error'')\<rparr>,
         [HttpGet doc_url, ConsoleError (js ''Network Error'')])"
proof -
  have "api_pdf_text online (ranged_request ''200'' ''abc'') =
          catch_error [HttpGet doc_url] (js ''Invalid min page value'')"
    using api_pdf_text_fetched [of "ranged_request ''200'' ''abc''" online pdf_bytes 100 200]
    by (simp add: max_page_cases min_page_cases ranged_request_fields example_numbers example_envs)
  moreover have "api_pdf_text offline (ranged_request ''0'' ''abc'') =
          catch_error [HttpGet doc_url] (js ''Network Error'')"
    by (simp add: api_pdf_text_def ranged_request_fields example_envs)
  ultimately show ?thesis
    by (simp add: catch_error_def max_page_cases ranged_request_fields example_numbers)
qed

text \<open>
  C10. In /api/pdf-text the document is fetched before min and max are looked at: when
  pdfUrl is given and the fetch fails, the answer is HTTP 500 with the message of the
  fetch failure, whatever min and max are, and whenever pdfUrl is given the first thing
  the handler does is the request to that URL.
\<close>

theorem fetch_before_validation:
  assumes "\<not> falsy (pdfUrl req)"
  shows "(\<forall>message. axios_get e (ToString (pdfUrl req)) = Inl message \<longrightarrow>
            api_pdf_text e req =
              (\<lparr>status = 500, body = FailureBody (js ''Failed to process PDF'') message\<rparr>,
               [HttpGet (ToString (pdfUrl req)), ConsoleError message]))
       \<and> (\<exists>rest. snd (api_pdf_text e req) = HttpGet (ToString (pdfUrl req)) # rest)"
  using assms
  by (simp add: api_pdf_text_def Let_def catch_error_def split: sum.splits)

theorem fetch_before_validation_witness:
  "\<not> falsy (pdfUrl (ranged_request ''5'' ''-1''))
   \<and> parseInt (ToString (q_min (ranged_request ''5'' ''-1''))) = Num 5
   \<and> parseInt (ToString (q_max (ranged_request ''5'' ''-1''))) = Num (- 1)
   \<and> axios_get offline (ToString (pdfUrl (ranged_request ''5'' ''-1''))) = Inl (js ''Network Error'')
   \<and> api_pdf_text offline (ranged_request ''5'' ''-1'') =
        (\<lparr>status = 500, body = FailureBody (js ''Failed to process PDF'') (js ''Network Error'')\<rparr>,
         [HttpGet doc_url, ConsoleError (js ''Network Error'')])"
proof -
  have url: "\<not> falsy (pdfUrl (ranged_request ''5'' ''-1''))"
    by (simp add: ranged_request_def falsy_def doc_url_def js_def)
  have lo: "parseInt (ToString (q_min (ranged_request ''5'' ''-1''))) = Num 5"
    by (simp add: ranged_request_fields example_numbers)
  have hi: "parseInt (ToString (q_max (ranged_request ''5'' ''-1''))) = Num (- 1)"
    by (simp add: ranged_request_fields example_numbers)
  have fetch: "axios_get offline (ToString (pdfUrl (ranged_request ''5'' ''-1''))) = Inl (js ''Network Error'')"
    by (simp add: offline_def online_def)
  have same: "ToString (pdfUrl (ranged_request ''5'' ''-1'')) = doc_url"
    by (simp add: ranged_request_def ToString_def)
  from fetch_before_validation [OF url, of offline] fetch same
  have "api_pdf_text offline (ranged_request ''5'' ''-1'') =
        (\<lparr>status = 500, body = FailureBody (js ''Failed to process PDF'') (js ''Network Error'')\<rparr>,
         [HttpGet doc_url, ConsoleError (js ''Network Error'')])"
    by simp
  with url lo hi fetch show ?thesis by simp
qed

end
